theory Spec2Isabelle
  imports Main "HOL-Library.Word"
begin

section \<open>Values shared by the components\<close>

text \<open>
  An error object as the handlers see it, or any other thrown value that is not
  \<^verbatim>\<open>null\<close> or \<^verbatim>\<open>undefined\<close>: its \<^verbatim>\<open>message\<close> property may be absent
  (\<^verbatim>\<open>undefined\<close>). \<^verbatim>\<open>new Error(m)\<close> always carries a message: the empty string when
  \<^verbatim>\<open>m\<close> is \<^verbatim>\<open>undefined\<close>.
\<close>

datatype JsError = JsError (message: "string option")

definition new_Error :: "string option \<Rightarrow> JsError" where
  "new_Error m = JsError (Some (case m of None \<Rightarrow> [] | Some s \<Rightarrow> s))"

text \<open>
  The enumeration \<^verbatim>\<open>AvailableAiProviders\<close> is declared outside the given files. The
  components name two of its members; every other member is kept by its name.
\<close>

datatype AvailableAiProviders = EMBEDDED | SCREENPIPE_CLOUD | OtherProvider string

text \<open>A number as \<^verbatim>\<open>parseInt\<close> delivers it: an integer or \<^verbatim>\<open>NaN\<close>.\<close>

datatype js_number = NaN | Num int

text \<open>Text typed into a form: its UTF-16 code units, which is what \<^verbatim>\<open>length\<close> counts.\<close>

type_synonym js_string = "16 word list"

text \<open>
  The values stored under the keys of a settings object. An object is a map from its
  keys to values; \<^verbatim>\<open>{...values, k: v}\<close> is \<open>values(k \<mapsto> v)\<close>.
\<close>

datatype js_value =
    JStr string
  | JNum js_number
  | JBool bool
  | JProvider AvailableAiProviders
  | JObj "string \<Rightarrow> js_value option"

type_synonym partial_settings = "string \<Rightarrow> js_value option"

text \<open>The fields of the settings record that the components read.\<close>

record EmbeddedLLMConfig =
  port :: js_number
  model :: string
  enabled :: bool

record Settings =
  aiProviderType :: AvailableAiProviders
  embeddedLLM :: EmbeddedLLMConfig

section \<open>Embedded control center: the two polled statuses and the buttons\<close>

text \<open>
  \<^verbatim>\<open>SidecarState\<close> and \<^verbatim>\<open>ModelState\<close>: the four members each, as the keys of the two
  \<^verbatim>\<open>tooltipTexts\<close> tables list them.
\<close>

datatype SidecarState =
  SidecarState_INACTIVE | SidecarState_ERROR | SidecarState_ACTIVE | SidecarState_UNKNOWN

datatype ModelState =
  ModelState_INACTIVE | ModelState_ERROR | ModelState_RUNNING | ModelState_UNKNOWN

text \<open>\<^verbatim>\<open>SidecarController\<close>: the memoised flags, as functions of the values they read.\<close>

definition isPlayButtonDisabled :: "SidecarState \<Rightarrow> bool \<Rightarrow> bool" where
  "isPlayButtonDisabled status isDirty =
     (if status = SidecarState_ACTIVE \<or> status = SidecarState_UNKNOWN \<or> isDirty
      then True else False)"

definition isPauseButtonDisabled :: "SidecarState \<Rightarrow> bool" where
  "isPauseButtonDisabled status =
     (if status \<noteq> SidecarState_ACTIVE then True else False)"

text \<open>\<^verbatim>\<open>ModelController\<close>.\<close>

definition selectDisabled :: "SidecarState \<Rightarrow> bool" where
  "selectDisabled status =
     (if status \<noteq> SidecarState_ACTIVE then True else False)"

definition playButtonDisabled :: "SidecarState \<Rightarrow> ModelState \<Rightarrow> bool" where
  "playButtonDisabled status mstatus =
     (if status \<noteq> SidecarState_ACTIVE then True
      else if mstatus = ModelState_RUNNING \<or> mstatus = ModelState_ERROR then True
      else False)"

definition pauseButtonDisabled :: "SidecarState \<Rightarrow> ModelState \<Rightarrow> bool" where
  "pauseButtonDisabled status mstatus =
     (if status \<noteq> SidecarState_ACTIVE then True
      else if mstatus \<noteq> ModelState_RUNNING then True
      else False)"

text \<open>
  Everything the two controllers read when they render: the settings record, the two
  statuses of \<^verbatim>\<open>useLLM\<close>, and \<^verbatim>\<open>form.formState.isDirty\<close> of the port form.
\<close>

record control_center_inputs =
  settingsRecord :: Settings
  sidecarStatus :: SidecarState
  modelStatus :: ModelState
  portFormIsDirty :: bool

text \<open>The \<^verbatim>\<open>disabled\<close> property of each of the four buttons, in the order of the page.\<close>

definition startSidecarButton_disabled :: "control_center_inputs \<Rightarrow> bool" where
  "startSidecarButton_disabled inp =
     isPlayButtonDisabled (sidecarStatus inp) (portFormIsDirty inp)"

definition stopSidecarButton_disabled :: "control_center_inputs \<Rightarrow> bool" where
  "stopSidecarButton_disabled inp = isPauseButtonDisabled (sidecarStatus inp)"

definition startModelButton_disabled :: "control_center_inputs \<Rightarrow> bool" where
  "startModelButton_disabled inp = playButtonDisabled (sidecarStatus inp) (modelStatus inp)"

definition stopModelButton_disabled :: "control_center_inputs \<Rightarrow> bool" where
  "stopModelButton_disabled inp = pauseButtonDisabled (sidecarStatus inp) (modelStatus inp)"

section \<open>Onboarding context\<close>

text \<open>
  The data fields of \<^verbatim>\<open>OnboardingContextType\<close>; the callbacks are the record's
  extension. \<^verbatim>\<open>SlideKey\<close> is declared outside the given files and is a type parameter.
\<close>

record 'slide OnboardingContextType =
  showOnboarding :: bool
  selectedOptions :: "string list"
  selectedPersonalization :: "string option"
  selectedPreference :: "string option"
  currentSlide :: 'slide
  error :: "string option"

text \<open>
  React's \<^verbatim>\<open>useContext\<close>: the value of the nearest enclosing provider, and the default
  of \<^verbatim>\<open>createContext\<close> when there is none. The enclosing providers' values are listed
  nearest first.
\<close>

definition useContext :: "'a \<Rightarrow> 'a list \<Rightarrow> 'a" where
  "useContext dflt enclosing = (case enclosing of [] \<Rightarrow> dflt | v # _ \<Rightarrow> v)"

text \<open>
  \<^verbatim>\<open>createContext<OnboardingContextType | undefined>(undefined)\<close>: the default is
  \<^verbatim>\<open>undefined\<close>, and \<^verbatim>\<open>OnboardingProvider\<close> always provides an object.
\<close>

definition OnboardingContext_default :: "('slide, 'm) OnboardingContextType_scheme option" where
  "OnboardingContext_default = None"

definition useOnboarding ::
  "('slide, 'm) OnboardingContextType_scheme list
     \<Rightarrow> JsError + ('slide, 'm) OnboardingContextType_scheme" where
  "useOnboarding providers =
     (let context = useContext OnboardingContext_default (map Some providers) in
      case context of
        None \<Rightarrow> Inl (new_Error (Some ''useOnboarding must be used within an OnboardingProvider''))
      | Some c \<Rightarrow> Inr c)"

section \<open>Effects of the settings components\<close>

text \<open>
  A transient notification: the object handed to \<^verbatim>\<open>toast\<close>. A property the call does
  not give is \<^verbatim>\<open>undefined\<close>.
\<close>

record toast_props =
  title :: string
  description :: "string option"
  variant :: "string option"

text \<open>
  What a handler does to the outside, in the order it does it: a notification, a call of
  the provider's credential validation, a call of \<^verbatim>\<open>updateSettings\<close>, a reset of the
  port form (with the new default, when one is given), a URL handed to the shell plugin.
\<close>

datatype event =
    Toast toast_props
  | CredentialValidation AvailableAiProviders partial_settings
  | UpdateSettings partial_settings
  | FormReset "js_string option"
  | OpenUrl string

text \<open>The persisted settings, whatever the store keeps, and the effects so far.\<close>

record 'st world =
  store :: 'st
  events :: "event list"

definition toast :: "toast_props \<Rightarrow> 'st world \<Rightarrow> 'st world" where
  "toast props w = w\<lparr>events := events w @ [Toast props]\<rparr>"

text \<open>
  What a collaborator can throw: \<^verbatim>\<open>null\<close> or \<^verbatim>\<open>undefined\<close>, or any other value, of which
  the handlers read the \<^verbatim>\<open>message\<close> property only.
\<close>

datatype nullish = JsNull | JsUndefined

datatype js_thrown = ThrownNullish nullish | Thrown JsError

text \<open>
  Reading \<^verbatim>\<open>e.message\<close> of \<^verbatim>\<open>null\<close> or \<^verbatim>\<open>undefined\<close> throws a \<^verbatim>\<open>TypeError\<close>. Its
  message is the engine's and a parameter, \<open>typeErrorText\<close>.
\<close>

definition TypeError_reading_message :: "(nullish \<Rightarrow> string) \<Rightarrow> nullish \<Rightarrow> JsError" where
  "TypeError_reading_message typeErrorText n = JsError (Some (typeErrorText n))"

text \<open>
  \<^verbatim>\<open>updateSettings\<close> of \<^verbatim>\<open>useSettings\<close> is a collaborator: from the values and the
  persisted settings it gives the settings it leaves behind, and what it throws when it
  throws. The handlers do not await it, so only a synchronous throw reaches them.
\<close>

type_synonym 'st updateSettings_fn = "partial_settings \<Rightarrow> 'st \<Rightarrow> js_thrown option \<times> 'st"

definition call_updateSettings ::
  "'st updateSettings_fn \<Rightarrow> partial_settings \<Rightarrow> 'st world \<Rightarrow> js_thrown option \<times> 'st world" where
  "call_updateSettings updateSettings values w =
     (case updateSettings values (store w) of
        (thrown, s') \<Rightarrow> (thrown, \<lparr>store = s', events = events w @ [UpdateSettings values]\<rparr>))"

text \<open>
  \<^verbatim>\<open>mutateAsync\<close> of \<^verbatim>\<open>useMutation\<close>: run the mutation function; when it resolves, run
  \<^verbatim>\<open>onSuccess\<close> and resolve; when it rejects, run \<^verbatim>\<open>onError\<close> with what was thrown and
  reject with it, or with what \<^verbatim>\<open>onError\<close> throws when it throws itself.
\<close>

definition mutateAsync ::
  "('v \<Rightarrow> 'st world \<Rightarrow> (js_thrown + unit) \<times> 'st world)
     \<Rightarrow> ('st world \<Rightarrow> 'st world)
     \<Rightarrow> (js_thrown \<Rightarrow> 'st world \<Rightarrow> js_thrown option \<times> 'st world)
     \<Rightarrow> 'v \<Rightarrow> 'st world \<Rightarrow> (js_thrown + unit) \<times> 'st world" where
  "mutateAsync mutationFn onSuccess onError variables w =
     (case mutationFn variables w of
        (Inl e, w1) \<Rightarrow>
          (case onError e w1 of
             (None, w2) \<Rightarrow> (Inl e, w2)
           | (Some e', w2) \<Rightarrow> (Inl e', w2))
      | (Inr u, w1) \<Rightarrow> (Inr u, onSuccess w1))"

text \<open>The description of every error notification: \<^verbatim>\<open>e.message ? e.message : 'please try again.'\<close>.\<close>

definition message_or_retry :: "JsError \<Rightarrow> string" where
  "message_or_retry e =
     (case message e of
        None \<Rightarrow> ''please try again.''
      | Some m \<Rightarrow> if m \<noteq> [] then m else ''please try again.'')"

text \<open>
  The four \<^verbatim>\<open>onError\<close> handlers are this one, each with its title. The argument of
  \<^verbatim>\<open>toast\<close> is built first, so for \<^verbatim>\<open>null\<close> and \<^verbatim>\<open>undefined\<close> the handler throws before
  any notification.
\<close>

definition onError_toast ::
  "(nullish \<Rightarrow> string) \<Rightarrow> string \<Rightarrow> js_thrown \<Rightarrow> 'st world \<Rightarrow> js_thrown option \<times> 'st world" where
  "onError_toast typeErrorText failureTitle e w =
     (case e of
        ThrownNullish n \<Rightarrow> (Some (Thrown (TypeError_reading_message typeErrorText n)), w)
      | Thrown err \<Rightarrow>
          (None, toast \<lparr>title = failureTitle,
                       description = Some (message_or_retry err),
                       variant = Some ''destructive''\<rparr> w))"

subsection \<open>\<^verbatim>\<open>RegularProviderSetupForm\<close>\<close>

text \<open>
  \<^verbatim>\<open>catch (e: any) { throw new Error(e.message) }\<close> of the two mutation functions: what
  the \<^verbatim>\<open>catch\<close> block throws, for each thrown value.
\<close>

definition rethrown_Error :: "(nullish \<Rightarrow> string) \<Rightarrow> js_thrown \<Rightarrow> JsError" where
  "rethrown_Error typeErrorText e =
     (case e of
        ThrownNullish n \<Rightarrow> TypeError_reading_message typeErrorText n
      | Thrown err \<Rightarrow> new_Error (message err))"

definition Regular_updateSettingsAsync ::
  "(nullish \<Rightarrow> string) \<Rightarrow> 'st updateSettings_fn \<Rightarrow> partial_settings \<Rightarrow> 'st world
     \<Rightarrow> (js_thrown + unit) \<times> 'st world" where
  "Regular_updateSettingsAsync typeErrorText updateSettings =
     mutateAsync
       (\<lambda>values w.
          case call_updateSettings updateSettings values w of
            (Some e, w1) \<Rightarrow> (Inl (Thrown (rethrown_Error typeErrorText e)), w1)
          | (None, w1) \<Rightarrow> (Inr (), w1))
       (toast \<lparr>title = ''ai provider info updated'', description = None, variant = None\<rparr>)
       (onError_toast typeErrorText ''ai provider update failed!'')"

text \<open>
  The table \<^verbatim>\<open>AiProviders\<close> is declared outside the given files and is a parameter:
  for each provider, its \<^verbatim>\<open>credentialValidation\<close> when the entry has one. A validation
  is handed the form's values only and gives what it throws, if anything; the settings
  store is out of its reach.
\<close>

type_synonym AiProviders_table =
  "AvailableAiProviders \<Rightarrow> (partial_settings \<Rightarrow> js_thrown option) option"

definition Regular_credentialValidation ::
  "(nullish \<Rightarrow> string) \<Rightarrow> AiProviders_table \<Rightarrow> AvailableAiProviders \<Rightarrow> partial_settings
     \<Rightarrow> 'st world \<Rightarrow> (js_thrown + unit) \<times> 'st world" where
  "Regular_credentialValidation typeErrorText AiProviders aiProvider =
     mutateAsync
       (\<lambda>values w.
          case AiProviders aiProvider of
            None \<Rightarrow> (Inr (), w)
          | Some validate \<Rightarrow>
              (case validate values of
                 Some e \<Rightarrow>
                   (Inl (Thrown (rethrown_Error typeErrorText e)),
                    w\<lparr>events := events w @ [CredentialValidation aiProvider values]\<rparr>)
               | None \<Rightarrow>
                   (Inr (), w\<lparr>events := events w @ [CredentialValidation aiProvider values]\<rparr>)))
       (toast \<lparr>title = ''credential validation successful'', description = None, variant = None\<rparr>)
       (onError_toast typeErrorText ''credential validation failed!'')"

definition Regular_submitChanges ::
  "(nullish \<Rightarrow> string) \<Rightarrow> AiProviders_table \<Rightarrow> 'st updateSettings_fn \<Rightarrow> AvailableAiProviders
     \<Rightarrow> partial_settings \<Rightarrow> 'st world \<Rightarrow> (js_thrown + unit) \<times> 'st world" where
  "Regular_submitChanges typeErrorText AiProviders updateSettings aiProvider values w =
     (if aiProvider \<noteq> EMBEDDED then
        (case Regular_credentialValidation typeErrorText AiProviders aiProvider values w of
           (Inl e, w1) \<Rightarrow> (Inl e, w1)
         | (Inr u, w1) \<Rightarrow>
             Regular_updateSettingsAsync typeErrorText updateSettings
               (values(''aiProviderType'' \<mapsto> JProvider aiProvider)) w1)
      else
        Regular_updateSettingsAsync typeErrorText updateSettings
          [''embeddedLLM'' \<mapsto> JObj values] w)"

text \<open>\<^verbatim>\<open>componentsVisibility\<close>; \<^verbatim>\<open>user\<close> is \<open>None\<close> when nobody is logged in.\<close>

record componentsVisibility_result =
  showForm :: bool
  showLoginStep :: "bool option"

definition componentsVisibility :: "AvailableAiProviders \<Rightarrow> 'u option \<Rightarrow> componentsVisibility_result" where
  "componentsVisibility aiProvider user =
     (if aiProvider = SCREENPIPE_CLOUD \<and> user = None
      then \<lparr>showForm = False, showLoginStep = Some True\<rparr>
      else \<lparr>showForm = True, showLoginStep = None\<rparr>)"

text \<open>
  The result of the setup-form query, \<open>None\<close> until it has arrived, and the two blocks
  the component returns: the login step under \<^verbatim>\<open>componentsVisibility.showLoginStep\<close>, the
  form under \<^verbatim>\<open>data?.setupForm && componentsVisibility.showForm\<close>.
\<close>

record ('f, 'd) setup_query_data =
  setupForm :: "'f option"
  defaultValues :: 'd

record rendered_blocks =
  loginStep_rendered :: bool
  form_rendered :: bool

definition RegularProviderSetupForm_render ::
  "AvailableAiProviders \<Rightarrow> 'u option \<Rightarrow> ('f, 'd) setup_query_data option \<Rightarrow> rendered_blocks" where
  "RegularProviderSetupForm_render aiProvider user data =
     (let visibility = componentsVisibility aiProvider user in
      \<lparr>loginStep_rendered = (showLoginStep visibility = Some True),
       form_rendered =
         ((case data of None \<Rightarrow> False | Some d \<Rightarrow> setupForm d \<noteq> None) \<and> showForm visibility)\<rparr>)"

text \<open>The login button: \<^verbatim>\<open>onClick={() => openUrl("https://screenpi.pe/login")}\<close>.\<close>

definition loginButton_onClick :: "'st world \<Rightarrow> 'st world" where
  "loginButton_onClick w = w\<lparr>events := events w @ [OpenUrl ''https://screenpi.pe/login'']\<rparr>"

subsection \<open>\<^verbatim>\<open>SidecarController\<close> and \<^verbatim>\<open>EmbeddedSetupForm\<close>\<close>

text \<open>
  Here the mutation functions have no \<^verbatim>\<open>try\<close>: what \<^verbatim>\<open>updateSettings\<close> throws reaches
  \<^verbatim>\<open>onError\<close> as it is.
\<close>

definition Sidecar_updateSettingsAsync ::
  "(nullish \<Rightarrow> string) \<Rightarrow> 'st updateSettings_fn \<Rightarrow> partial_settings \<Rightarrow> 'st world
     \<Rightarrow> (js_thrown + unit) \<times> 'st world" where
  "Sidecar_updateSettingsAsync typeErrorText updateSettings =
     mutateAsync
       (\<lambda>values w.
          case call_updateSettings updateSettings values w of
            (Some e, w1) \<Rightarrow> (Inl e, w1)
          | (None, w1) \<Rightarrow> (Inr (), w1))
       (toast \<lparr>title = ''sidecar default port updated'', description = None, variant = None\<rparr>)
       (onError_toast typeErrorText ''form submission failed!'')"

text \<open>
  \<^verbatim>\<open>parseInt\<close> is the runtime's and a parameter; \<open>stg\<close> is the settings record the
  component rendered with, \<open>portText\<close> the submitted \<^verbatim>\<open>values.port\<close>.
\<close>

definition handleFormSubmit ::
  "(nullish \<Rightarrow> string) \<Rightarrow> (js_string \<Rightarrow> nat \<Rightarrow> js_number) \<Rightarrow> 'st updateSettings_fn
     \<Rightarrow> Settings \<Rightarrow> js_string \<Rightarrow> 'st world \<Rightarrow> (js_thrown + unit) \<times> 'st world" where
  "handleFormSubmit typeErrorText parseInt updateSettings stg portText w =
     (case Sidecar_updateSettingsAsync typeErrorText updateSettings
             [''embeddedLLM'' \<mapsto> JObj [''port'' \<mapsto> JNum (parseInt portText 10),
                                        ''model'' \<mapsto> JStr (model (embeddedLLM stg)),
                                        ''enabled'' \<mapsto> JBool True]] w of
        (Inl e, w1) \<Rightarrow> (Inl e, w1)
      | (Inr u, w1) \<Rightarrow> (Inr (), w1\<lparr>events := events w1 @ [FormReset (Some portText)]\<rparr>))"

definition resetForm :: "'st world \<Rightarrow> 'st world" where
  "resetForm w = w\<lparr>events := events w @ [FormReset None]\<rparr>"

definition Embedded_updateSettingsAsync ::
  "(nullish \<Rightarrow> string) \<Rightarrow> 'st updateSettings_fn \<Rightarrow> partial_settings \<Rightarrow> 'st world
     \<Rightarrow> (js_thrown + unit) \<times> 'st world" where
  "Embedded_updateSettingsAsync typeErrorText updateSettings =
     mutateAsync
       (\<lambda>values w.
          case call_updateSettings updateSettings values w of
            (Some e, w1) \<Rightarrow> (Inl e, w1)
          | (None, w1) \<Rightarrow> (Inr (), w1))
       (toast \<lparr>title = ''ai provider info updated'', description = None, variant = None\<rparr>)
       (onError_toast typeErrorText ''ai provider update failed!'')"

definition Embedded_submitChanges ::
  "(nullish \<Rightarrow> string) \<Rightarrow> (js_string \<Rightarrow> nat \<Rightarrow> js_number) \<Rightarrow> 'st updateSettings_fn
     \<Rightarrow> Settings \<Rightarrow> js_string \<Rightarrow> 'st world \<Rightarrow> (js_thrown + unit) \<times> 'st world" where
  "Embedded_submitChanges typeErrorText parseInt updateSettings stg portText w =
     Embedded_updateSettingsAsync typeErrorText updateSettings
       [''embeddedLLM'' \<mapsto> JObj [''port'' \<mapsto> JNum (parseInt portText 10),
                                  ''model'' \<mapsto> JStr (model (embeddedLLM stg)),
                                  ''enabled'' \<mapsto> JBool True]] w"

text \<open>The values handed to \<^verbatim>\<open>updateSettings\<close> in a sequence of effects, in order.\<close>

fun settings_writes :: "event list \<Rightarrow> partial_settings list" where
  "settings_writes [] = []"
| "settings_writes (UpdateSettings values # evs) = values # settings_writes evs"
| "settings_writes (_ # evs) = settings_writes evs"

section \<open>The custom provider's setup form\<close>

text \<open>
  A field descriptor. \<^verbatim>\<open>title\<close>, \<^verbatim>\<open>min\<close>, \<^verbatim>\<open>max\<close> and \<^verbatim>\<open>type\<close> carry a prime here.
  A select option is its value and its label.
\<close>

datatype field_type = STRING | SELECT | SELECT_CREATEABLE | TEXTAREA | SLIDER

record validationMeta_t =
  errorMessage :: "string option"
  min' :: "nat option"
  max' :: "nat option"
  optional :: bool

record typeMeta_t =
  isRegular :: bool
  type' :: field_type
  options :: "(string \<times> string) list option"

record FieldSchema =
  key :: string
  title' :: string
  placeholder :: "string option"
  validationMeta :: validationMeta_t
  typeMeta :: typeMeta_t

record FormSchema =
  formTitle :: string
  formFields :: "FieldSchema list"
  buttonText :: string

definition fields :: "FieldSchema list" where
  "fields =
     [\<lparr>key = ''aiUrl'', title' = ''endpoint url'', placeholder = None,
       validationMeta = \<lparr>errorMessage = Some ''this field is mandatory'',
                         min' = Some 1, max' = Some 50, optional = False\<rparr>,
       typeMeta = \<lparr>isRegular = True, type' = STRING, options = None\<rparr>\<rparr>,
      \<lparr>key = ''aiModel'', title' = ''ai model'', placeholder = Some ''type model name'',
       validationMeta = \<lparr>errorMessage = None, min' = None, max' = None, optional = False\<rparr>,
       typeMeta = \<lparr>isRegular = False, type' = SELECT_CREATEABLE, options = Some []\<rparr>\<rparr>,
      \<lparr>key = ''customPrompt'', title' = ''prompt'',
       placeholder = Some ''enter your custom prompt here'',
       validationMeta = \<lparr>errorMessage = Some ''you need to provide a custom prompt'',
                         min' = None, max' = None, optional = False\<rparr>,
       typeMeta = \<lparr>isRegular = True, type' = TEXTAREA, options = None\<rparr>\<rparr>,
      \<lparr>key = ''aiMaxContextChars'', title' = ''max content'', placeholder = None,
       validationMeta = \<lparr>errorMessage = Some ''you need to provide a custom prompt'',
                         min' = None, max' = None, optional = False\<rparr>,
       typeMeta = \<lparr>isRegular = True, type' = SLIDER, options = None\<rparr>\<rparr>]"

definition CustomSetupForm :: FormSchema where
  "CustomSetupForm =
     \<lparr>formTitle = ''configuration'', formFields = fields, buttonText = ''submit changes''\<rparr>"

text \<open>
  Modelled from the spec: \<^verbatim>\<open>generateFormSchema\<close> of \<^verbatim>\<open>utils/zod-schema-generator\<close>, which
  \<^verbatim>\<open>Form\<close> calls on \<^verbatim>\<open>form.fields\<close>, is not among the given files. The spec has the
  field schemas "used to generate input forms and their validators", with "basic
  validation (required/optional, min/max length)", and "a required field rejects empty
  input". So a field's validator takes the text entered for it (\<open>None\<close> when there is
  none): a required field rejects no input and the empty text, a minimum and a maximum
  bound the length; the form's validator accepts when every field's validator does.
\<close>

definition field_validator :: "FieldSchema \<Rightarrow> js_string option \<Rightarrow> bool" where
  "field_validator f input =
     (case input of
        None \<Rightarrow> optional (validationMeta f)
      | Some s \<Rightarrow>
          (optional (validationMeta f) \<or> s \<noteq> [])
          \<and> (case min' (validationMeta f) of None \<Rightarrow> True | Some n \<Rightarrow> n \<le> length s)
          \<and> (case max' (validationMeta f) of None \<Rightarrow> True | Some n \<Rightarrow> length s \<le> n))"

definition generateFormSchema :: "FieldSchema list \<Rightarrow> (string \<Rightarrow> js_string option) \<Rightarrow> bool" where
  "generateFormSchema fs values = list_all (\<lambda>f. field_validator f (values (key f))) fs"

section \<open>The command line's error module\<close>

definition ERRORS :: "(string \<times> string) list" where
  "ERRORS =
     [(''MISSING_DIR_OR_EMPTY_PIPE'', ''1''),
      (''EXISTING_CONFIG'', ''2''),
      (''MISSING_CONFIG'', ''3''),
      (''FAILED_CONFIG_READ'', ''4''),
      (''COMPONENT_NOT_FOUND'', ''5''),
      (''BUILD_MISSING_REGISTRY_FILE'', ''6'')]"

text \<open>
  The argument of \<^verbatim>\<open>handleError\<close>, by the tests the function makes: a string, a
  \<^verbatim>\<open>ZodError\<close> (with the entries of \<^verbatim>\<open>error.flatten().fieldErrors\<close>), another
  \<^verbatim>\<open>Error\<close> (with its message), anything else.
\<close>

datatype thrown_value =
    ThrownString string
  | ThrownZodError "(string \<times> string list) list"
  | ThrownError string
  | ThrownOther

datatype cli_effect = LoggerError string | LoggerBreak | ProcessExit nat

text \<open>An array inside a template literal: its elements joined by commas.\<close>

fun join_comma :: "string list \<Rightarrow> string" where
  "join_comma [] = []"
| "join_comma [x] = x"
| "join_comma (x # y # ys) = x @ '','' @ join_comma (y # ys)"

text \<open>
  \<^verbatim>\<open>handleError\<close>: what it logs, up to the \<^verbatim>\<open>process.exit(1)\<close> that ends the process.
  \<^verbatim>\<open>highlighter.info\<close> is declared outside the given files and is a parameter.
\<close>

definition handleError :: "(string \<Rightarrow> string) \<Rightarrow> thrown_value \<Rightarrow> cli_effect list" where
  "handleError highlighter_info err =
     [LoggerError ''Something went wrong. Please check the error below for more details.'',
      LoggerError ''If the problem persists, please open an issue on GitHub.'',
      LoggerError []] @
     (case err of
        ThrownString s \<Rightarrow> [LoggerError s, LoggerBreak, ProcessExit 1]
      | ThrownZodError fieldErrors \<Rightarrow>
          LoggerError ''Validation failed:'' #
          map (\<lambda>(k, v). LoggerError (''- '' @ highlighter_info k @ '': '' @ join_comma v))
            fieldErrors
          @ [LoggerBreak, ProcessExit 1]
      | ThrownError m \<Rightarrow> [LoggerError m, LoggerBreak, ProcessExit 1]
      | ThrownOther \<Rightarrow> [LoggerBreak, ProcessExit 1])"

section \<open>Concrete inputs\<close>

definition example_settings :: Settings where
  "example_settings =
     \<lparr>aiProviderType = OtherProvider ''CUSTOM'',
      embeddedLLM = \<lparr>port = Num 11434, model = ''llama3.2'', enabled = False\<rparr>\<rparr>"

text \<open>An engine's wording of the \<^verbatim>\<open>TypeError\<close>, for the concrete runs below.\<close>

definition example_typeErrorText :: "nullish \<Rightarrow> string" where
  "example_typeErrorText n =
     (case n of
        JsNull \<Rightarrow> ''null is not an object''
      | JsUndefined \<Rightarrow> ''undefined is not an object'')"

definition example_inputs :: control_center_inputs where
  "example_inputs =
     \<lparr>settingsRecord = example_settings, sidecarStatus = SidecarState_INACTIVE,
      modelStatus = ModelState_INACTIVE, portFormIsDirty = False\<rparr>"

section \<open>Properties of the control center\<close>

text \<open>
  C3. The model panel is a fixed mapping of the two statuses: the start-model button is
  enabled exactly when the sidecar is ACTIVE and the model is neither RUNNING nor ERROR,
  the stop-model button is enabled exactly when the sidecar is ACTIVE and the model is
  RUNNING, and the model select is disabled exactly when the sidecar is not ACTIVE.
\<close>

theorem model_panel_mapping:
  "(\<not> playButtonDisabled s m) =
     (s = SidecarState_ACTIVE \<and> m \<noteq> ModelState_RUNNING \<and> m \<noteq> ModelState_ERROR)
   \<and> (\<not> pauseButtonDisabled s m) = (s = SidecarState_ACTIVE \<and> m = ModelState_RUNNING)
   \<and> selectDisabled s = (s \<noteq> SidecarState_ACTIVE)"
  by (simp add: playButtonDisabled_def pauseButtonDisabled_def selectDisabled_def)

text \<open>
  C8. For every sidecar status, model status and dirty flag of the port form, the start
  and the stop button of one panel are never both enabled: at least one of the sidecar
  pair is disabled, and at least one of the model pair is disabled.
\<close>

theorem start_stop_never_both_enabled:
  "(isPlayButtonDisabled s d \<or> isPauseButtonDisabled s)
   \<and> (playButtonDisabled s m \<or> pauseButtonDisabled s m)"
  by (cases s; cases m) (simp_all add: isPlayButtonDisabled_def isPauseButtonDisabled_def
      playButtonDisabled_def pauseButtonDisabled_def)

text \<open>
  C2 as stated fails: the claim has the two statuses alone decide all four disabled
  flags, but the start-sidecar button also reads the dirty flag of the port form. Two
  renders with the same statuses differ in that flag.
\<close>

theorem start_sidecar_reads_dirty_flag:
  "sidecarStatus (example_inputs\<lparr>portFormIsDirty := True\<rparr>) = sidecarStatus example_inputs
   \<and> modelStatus (example_inputs\<lparr>portFormIsDirty := True\<rparr>) = modelStatus example_inputs
   \<and> startSidecarButton_disabled (example_inputs\<lparr>portFormIsDirty := True\<rparr>)
   \<and> \<not> startSidecarButton_disabled example_inputs"
  by (simp add: example_inputs_def startSidecarButton_disabled_def isPlayButtonDisabled_def)

text \<open>
  C2, amended. Two renders with the same sidecar status and the same model status have
  the same disabled flag on the stop-sidecar, start-model and stop-model buttons,
  whatever else differs; the start-sidecar button agrees as well once the port form's
  dirty flag is the same, being disabled exactly when the sidecar is ACTIVE or UNKNOWN
  or the port form is dirty.
\<close>

theorem control_buttons_read_statuses_and_dirty_flag:
  assumes "sidecarStatus a = sidecarStatus b" and "modelStatus a = modelStatus b"
  shows "stopSidecarButton_disabled a = stopSidecarButton_disabled b
       \<and> startModelButton_disabled a = startModelButton_disabled b
       \<and> stopModelButton_disabled a = stopModelButton_disabled b
       \<and> (portFormIsDirty a = portFormIsDirty b
            \<longrightarrow> startSidecarButton_disabled a = startSidecarButton_disabled b)
       \<and> startSidecarButton_disabled a =
           (sidecarStatus a = SidecarState_ACTIVE \<or> sidecarStatus a = SidecarState_UNKNOWN
             \<or> portFormIsDirty a)"
  using assms
  by (simp add: stopSidecarButton_disabled_def startModelButton_disabled_def
      stopModelButton_disabled_def startSidecarButton_disabled_def isPlayButtonDisabled_def)

text \<open>
  Two renders that differ in the settings only: the same statuses, the same dirty flag,
  and the same four flags.
\<close>

theorem control_buttons_read_statuses_and_dirty_flag_witness:
  "sidecarStatus example_inputs
     = sidecarStatus (example_inputs\<lparr>settingsRecord := example_settings\<lparr>aiProviderType := EMBEDDED\<rparr>\<rparr>)
   \<and> modelStatus example_inputs
     = modelStatus (example_inputs\<lparr>settingsRecord := example_settings\<lparr>aiProviderType := EMBEDDED\<rparr>\<rparr>)
   \<and> portFormIsDirty example_inputs
     = portFormIsDirty (example_inputs\<lparr>settingsRecord := example_settings\<lparr>aiProviderType := EMBEDDED\<rparr>\<rparr>)
   \<and> example_inputs
     \<noteq> example_inputs\<lparr>settingsRecord := example_settings\<lparr>aiProviderType := EMBEDDED\<rparr>\<rparr>
   \<and> stopSidecarButton_disabled example_inputs
     = stopSidecarButton_disabled
        (example_inputs\<lparr>settingsRecord := example_settings\<lparr>aiProviderType := EMBEDDED\<rparr>\<rparr>)
   \<and> startModelButton_disabled example_inputs
     = startModelButton_disabled
        (example_inputs\<lparr>settingsRecord := example_settings\<lparr>aiProviderType := EMBEDDED\<rparr>\<rparr>)
   \<and> stopModelButton_disabled example_inputs
     = stopModelButton_disabled
        (example_inputs\<lparr>settingsRecord := example_settings\<lparr>aiProviderType := EMBEDDED\<rparr>\<rparr>)
   \<and> startSidecarButton_disabled example_inputs
     = startSidecarButton_disabled
        (example_inputs\<lparr>settingsRecord := example_settings\<lparr>aiProviderType := EMBEDDED\<rparr>\<rparr>)
   \<and> \<not> startSidecarButton_disabled example_inputs"
proof -
  have s: "sidecarStatus example_inputs
     = sidecarStatus (example_inputs\<lparr>settingsRecord := example_settings\<lparr>aiProviderType := EMBEDDED\<rparr>\<rparr>)"
    by simp
  have m: "modelStatus example_inputs
     = modelStatus (example_inputs\<lparr>settingsRecord := example_settings\<lparr>aiProviderType := EMBEDDED\<rparr>\<rparr>)"
    by simp
  have d: "example_inputs
     \<noteq> example_inputs\<lparr>settingsRecord := example_settings\<lparr>aiProviderType := EMBEDDED\<rparr>\<rparr>"
    by (simp add: example_inputs_def example_settings_def)
  have i: "sidecarStatus example_inputs = SidecarState_INACTIVE \<and> \<not> portFormIsDirty example_inputs"
    by (simp add: example_inputs_def)
  show ?thesis
    using control_buttons_read_statuses_and_dirty_flag [OF s m] d i
    by (simp add: startSidecarButton_disabled_def isPlayButtonDisabled_def)
qed

section \<open>Properties of the onboarding context\<close>

text \<open>
  C10. The context value that \<^verbatim>\<open>useOnboarding\<close> reads is undefined exactly when no
  \<^verbatim>\<open>OnboardingProvider\<close> encloses the call; \<^verbatim>\<open>useOnboarding\<close> throws exactly then, with
  its fixed message, and under a provider it returns the context that the nearest
  provider gives, whole.
\<close>

theorem useOnboarding_throws_iff_no_provider:
  "(useContext OnboardingContext_default (map Some providers) = None) = (providers = [])
   \<and> isl (useOnboarding providers) = (providers = [])
   \<and> useOnboarding [] =
       Inl (JsError (Some ''useOnboarding must be used within an OnboardingProvider''))
   \<and> useOnboarding (c # providers) = Inr c"
  by (cases providers)
    (simp_all add: useOnboarding_def useContext_def OnboardingContext_default_def new_Error_def)

section \<open>Properties of the settings components\<close>

lemma settings_writes_append:
  "settings_writes (xs @ ys) = settings_writes xs @ settings_writes ys"
  by (induction xs rule: settings_writes.induct) simp_all

lemma message_or_retry_new_Error: "message_or_retry (new_Error (message e)) = message_or_retry e"
  by (cases e) (simp add: message_or_retry_def new_Error_def split: option.splits)

lemma rethrown_Error_simps:
  "rethrown_Error typeErrorText (Thrown err) = new_Error (message err)"
  "rethrown_Error typeErrorText (ThrownNullish n) = TypeError_reading_message typeErrorText n"
  by (simp_all add: rethrown_Error_def)

lemma call_updateSettings_eq:
  "updateSettings vals (store w) = (r, s') \<Longrightarrow>
   call_updateSettings updateSettings vals w =
     (r, \<lparr>store = s', events = events w @ [UpdateSettings vals]\<rparr>)"
  by (simp add: call_updateSettings_def)

lemma Regular_updateSettingsAsync_ok:
  "updateSettings vals (store w) = (None, s') \<Longrightarrow>
   Regular_updateSettingsAsync typeErrorText updateSettings vals w =
     (Inr (), \<lparr>store = s', events = events w @
        [UpdateSettings vals,
         Toast \<lparr>title = ''ai provider info updated'', description = None, variant = None\<rparr>]\<rparr>)"
  by (simp add: Regular_updateSettingsAsync_def mutateAsync_def call_updateSettings_eq toast_def)

lemma Regular_updateSettingsAsync_throws:
  "updateSettings vals (store w) = (Some e, s') \<Longrightarrow>
   Regular_updateSettingsAsync typeErrorText updateSettings vals w =
     (Inl (Thrown (rethrown_Error typeErrorText e)), \<lparr>store = s', events = events w @
        [UpdateSettings vals,
         Toast \<lparr>title = ''ai provider update failed!'',
                description = Some (message_or_retry (rethrown_Error typeErrorText e)),
                variant = Some ''destructive''\<rparr>]\<rparr>)"
  by (simp add: Regular_updateSettingsAsync_def mutateAsync_def call_updateSettings_eq toast_def
      onError_toast_def)

lemma Regular_updateSettingsAsync_events:
  "\<exists>t. snd (Regular_updateSettingsAsync typeErrorText updateSettings vals w) =
     \<lparr>store = snd (updateSettings vals (store w)),
      events = events w @ [UpdateSettings vals, Toast t]\<rparr>"
proof (cases "updateSettings vals (store w)")
  case (Pair r s')
  then show ?thesis
    by (cases r) (simp_all add: Regular_updateSettingsAsync_ok Regular_updateSettingsAsync_throws)
qed

lemma Regular_credentialValidation_absent:
  "AiProviders aiProvider = None \<Longrightarrow>
   Regular_credentialValidation typeErrorText AiProviders aiProvider vals w =
     (Inr (), w\<lparr>events := events w @
        [Toast \<lparr>title = ''credential validation successful'', description = None,
                variant = None\<rparr>]\<rparr>)"
  by (simp add: Regular_credentialValidation_def mutateAsync_def toast_def)

lemma Regular_credentialValidation_ok:
  "AiProviders aiProvider = Some validate \<Longrightarrow> validate vals = None \<Longrightarrow>
   Regular_credentialValidation typeErrorText AiProviders aiProvider vals w =
     (Inr (), w\<lparr>events := events w @
        [CredentialValidation aiProvider vals,
         Toast \<lparr>title = ''credential validation successful'', description = None,
                variant = None\<rparr>]\<rparr>)"
  by (simp add: Regular_credentialValidation_def mutateAsync_def toast_def)

lemma Regular_credentialValidation_throws:
  "AiProviders aiProvider = Some validate \<Longrightarrow> validate vals = Some e \<Longrightarrow>
   Regular_credentialValidation typeErrorText AiProviders aiProvider vals w =
     (Inl (Thrown (rethrown_Error typeErrorText e)), w\<lparr>events := events w @
        [CredentialValidation aiProvider vals,
         Toast \<lparr>title = ''credential validation failed!'',
                description = Some (message_or_retry (rethrown_Error typeErrorText e)),
                variant = Some ''destructive''\<rparr>]\<rparr>)"
  by (simp add: Regular_credentialValidation_def mutateAsync_def toast_def onError_toast_def)

text \<open>
  C1, amended. For a selected provider other than EMBEDDED whose entry in the provider
  table has a credential validation, \<^verbatim>\<open>submitChanges\<close> calls the validation before
  \<^verbatim>\<open>updateSettings\<close>; if the validation throws, \<^verbatim>\<open>submitChanges\<close> rejects with the
  error, the persisted settings are unchanged and \<^verbatim>\<open>updateSettings\<close> is not called.
  When the validation succeeds, and also when the provider's entry has no validation,
  \<^verbatim>\<open>updateSettings\<close> is called once, with the form's values and \<^verbatim>\<open>aiProviderType\<close> set
  to the selected provider. The error of the rejection is the \<^verbatim>\<open>catch\<close> block's: for a
  thrown value with a \<^verbatim>\<open>message\<close> to read, a new error with that message.
\<close>

theorem submitChanges_validates_before_writing:
  assumes "aiProvider \<noteq> EMBEDDED"
  shows
   "(AiProviders aiProvider = Some validate \<and> validate vals = Some e \<longrightarrow>
       Regular_submitChanges typeErrorText AiProviders updateSettings aiProvider vals w =
         (Inl (Thrown (rethrown_Error typeErrorText e)),
          w\<lparr>events := events w @
            [CredentialValidation aiProvider vals,
             Toast \<lparr>title = ''credential validation failed!'',
                    description = Some (message_or_retry (rethrown_Error typeErrorText e)),
                    variant = Some ''destructive''\<rparr>]\<rparr>)
       \<and> store (snd (Regular_submitChanges typeErrorText AiProviders updateSettings
                       aiProvider vals w))
           = store w
       \<and> settings_writes
           (events (snd (Regular_submitChanges typeErrorText AiProviders updateSettings
                          aiProvider vals w)))
           = settings_writes (events w))
    \<and> (AiProviders aiProvider = Some validate \<and> validate vals = None \<longrightarrow>
         (\<exists>t. snd (Regular_submitChanges typeErrorText AiProviders updateSettings
                     aiProvider vals w) =
            \<lparr>store = snd (updateSettings (vals(''aiProviderType'' \<mapsto> JProvider aiProvider))
                        (store w)),
             events = events w @
               [CredentialValidation aiProvider vals,
                Toast \<lparr>title = ''credential validation successful'', description = None,
                       variant = None\<rparr>,
                UpdateSettings (vals(''aiProviderType'' \<mapsto> JProvider aiProvider)),
                Toast t]\<rparr>))
    \<and> (AiProviders aiProvider = None \<longrightarrow>
         (\<exists>t. snd (Regular_submitChanges typeErrorText AiProviders updateSettings
                     aiProvider vals w) =
            \<lparr>store = snd (updateSettings (vals(''aiProviderType'' \<mapsto> JProvider aiProvider))
                        (store w)),
             events = events w @
               [Toast \<lparr>title = ''credential validation successful'', description = None,
                       variant = None\<rparr>,
                UpdateSettings (vals(''aiProviderType'' \<mapsto> JProvider aiProvider)),
                Toast t]\<rparr>))
    \<and> (vals(''aiProviderType'' \<mapsto> JProvider aiProvider)) ''aiProviderType''
        = Some (JProvider aiProvider)
    \<and> rethrown_Error typeErrorText (Thrown err) = new_Error (message err)
    \<and> message_or_retry (new_Error (message err)) = message_or_retry err"
proof (intro conjI impI)
  assume h: "AiProviders aiProvider = Some validate \<and> validate vals = Some e"
  then have cv: "Regular_credentialValidation typeErrorText AiProviders aiProvider vals w =
     (Inl (Thrown (rethrown_Error typeErrorText e)), w\<lparr>events := events w @
        [CredentialValidation aiProvider vals,
         Toast \<lparr>title = ''credential validation failed!'',
                description = Some (message_or_retry (rethrown_Error typeErrorText e)),
                variant = Some ''destructive''\<rparr>]\<rparr>)"
    by (simp add: Regular_credentialValidation_throws)
  show r: "Regular_submitChanges typeErrorText AiProviders updateSettings aiProvider vals w =
         (Inl (Thrown (rethrown_Error typeErrorText e)),
          w\<lparr>events := events w @
            [CredentialValidation aiProvider vals,
             Toast \<lparr>title = ''credential validation failed!'',
                    description = Some (message_or_retry (rethrown_Error typeErrorText e)),
                    variant = Some ''destructive''\<rparr>]\<rparr>)"
    using assms by (simp add: Regular_submitChanges_def cv)
  show "store (snd (Regular_submitChanges typeErrorText AiProviders updateSettings
                       aiProvider vals w))
           = store w"
    by (simp add: r)
  show "settings_writes
           (events (snd (Regular_submitChanges typeErrorText AiProviders updateSettings
                          aiProvider vals w)))
           = settings_writes (events w)"
    by (simp add: r settings_writes_append)
next
  assume h: "AiProviders aiProvider = Some validate \<and> validate vals = None"
  then have cv: "Regular_credentialValidation typeErrorText AiProviders aiProvider vals w =
     (Inr (), w\<lparr>events := events w @
        [CredentialValidation aiProvider vals,
         Toast \<lparr>title = ''credential validation successful'', description = None,
                variant = None\<rparr>]\<rparr>)"
    by (simp add: Regular_credentialValidation_ok)
  obtain t where
    "snd (Regular_updateSettingsAsync typeErrorText updateSettings
            (vals(''aiProviderType'' \<mapsto> JProvider aiProvider))
            (w\<lparr>events := events w @
              [CredentialValidation aiProvider vals,
               Toast \<lparr>title = ''credential validation successful'', description = None,
                      variant = None\<rparr>]\<rparr>)) =
     \<lparr>store = snd (updateSettings (vals(''aiProviderType'' \<mapsto> JProvider aiProvider))
                 (store w)),
      events = (events w @
        [CredentialValidation aiProvider vals,
         Toast \<lparr>title = ''credential validation successful'', description = None,
                variant = None\<rparr>]) @
        [UpdateSettings (vals(''aiProviderType'' \<mapsto> JProvider aiProvider)), Toast t]\<rparr>"
    using Regular_updateSettingsAsync_events
      [of typeErrorText updateSettings "vals(''aiProviderType'' \<mapsto> JProvider aiProvider)"
          "w\<lparr>events := events w @
              [CredentialValidation aiProvider vals,
               Toast \<lparr>title = ''credential validation successful'', description = None,
                      variant = None\<rparr>]\<rparr>"]
    by auto
  then show "\<exists>t. snd (Regular_submitChanges typeErrorText AiProviders updateSettings
                     aiProvider vals w) =
            \<lparr>store = snd (updateSettings (vals(''aiProviderType'' \<mapsto> JProvider aiProvider))
                        (store w)),
             events = events w @
               [CredentialValidation aiProvider vals,
                Toast \<lparr>title = ''credential validation successful'', description = None,
                       variant = None\<rparr>,
                UpdateSettings (vals(''aiProviderType'' \<mapsto> JProvider aiProvider)),
                Toast t]\<rparr>"
    using assms by (simp add: Regular_submitChanges_def cv)
next
  assume h: "AiProviders aiProvider = None"
  then have cv: "Regular_credentialValidation typeErrorText AiProviders aiProvider vals w =
     (Inr (), w\<lparr>events := events w @
        [Toast \<lparr>title = ''credential validation successful'', description = None,
                variant = None\<rparr>]\<rparr>)"
    by (simp add: Regular_credentialValidation_absent)
  obtain t where
    "snd (Regular_updateSettingsAsync typeErrorText updateSettings
            (vals(''aiProviderType'' \<mapsto> JProvider aiProvider))
            (w\<lparr>events := events w @
              [Toast \<lparr>title = ''credential validation successful'', description = None,
                      variant = None\<rparr>]\<rparr>)) =
     \<lparr>store = snd (updateSettings (vals(''aiProviderType'' \<mapsto> JProvider aiProvider))
                 (store w)),
      events = (events w @
        [Toast \<lparr>title = ''credential validation successful'', description = None,
                variant = None\<rparr>]) @
        [UpdateSettings (vals(''aiProviderType'' \<mapsto> JProvider aiProvider)), Toast t]\<rparr>"
    using Regular_updateSettingsAsync_events
      [of typeErrorText updateSettings "vals(''aiProviderType'' \<mapsto> JProvider aiProvider)"
          "w\<lparr>events := events w @
              [Toast \<lparr>title = ''credential validation successful'', description = None,
                      variant = None\<rparr>]\<rparr>"]
    by auto
  then show "\<exists>t. snd (Regular_submitChanges typeErrorText AiProviders updateSettings
                     aiProvider vals w) =
            \<lparr>store = snd (updateSettings (vals(''aiProviderType'' \<mapsto> JProvider aiProvider))
                        (store w)),
             events = events w @
               [Toast \<lparr>title = ''credential validation successful'', description = None,
                       variant = None\<rparr>,
                UpdateSettings (vals(''aiProviderType'' \<mapsto> JProvider aiProvider)),
                Toast t]\<rparr>"
    using assms by (simp add: Regular_submitChanges_def cv)
next
  show "(vals(''aiProviderType'' \<mapsto> JProvider aiProvider)) ''aiProviderType''
        = Some (JProvider aiProvider)"
    by simp
  show "rethrown_Error typeErrorText (Thrown err) = new_Error (message err)"
    by (simp add: rethrown_Error_simps)
  show "message_or_retry (new_Error (message err)) = message_or_retry err"
    by (rule message_or_retry_new_Error)
qed

text \<open>
  C1 as stated fails: the claim has every submission with a provider other than
  EMBEDDED call the credential validation before the write. A provider whose entry has
  no \<^verbatim>\<open>credentialValidation\<close> is written without any validation call.
\<close>

theorem submitChanges_without_validation:
  "OtherProvider ''CUSTOM'' \<noteq> EMBEDDED
   \<and> snd (Regular_submitChanges example_typeErrorText (\<lambda>p. None)
        (\<lambda>vals s. (None, s ++ vals))
        (OtherProvider ''CUSTOM'') [''aiUrl'' \<mapsto> JStr ''http://localhost:8080'']
        \<lparr>store = Map.empty, events = []\<rparr>) =
     \<lparr>store = [''aiUrl'' \<mapsto> JStr ''http://localhost:8080'',
               ''aiProviderType'' \<mapsto> JProvider (OtherProvider ''CUSTOM'')],
      events =
        [Toast \<lparr>title = ''credential validation successful'', description = None,
                variant = None\<rparr>,
         UpdateSettings [''aiUrl'' \<mapsto> JStr ''http://localhost:8080'',
                         ''aiProviderType'' \<mapsto> JProvider (OtherProvider ''CUSTOM'')],
         Toast \<lparr>title = ''ai provider info updated'', description = None,
                variant = None\<rparr>]\<rparr>"
  by (simp add: Regular_submitChanges_def Regular_credentialValidation_def
      Regular_updateSettingsAsync_def mutateAsync_def call_updateSettings_def toast_def)

text \<open>
  The cloud provider with a validation that rejects the key, and with one that accepts
  it, over a store that merges what it is handed.
\<close>

theorem submitChanges_validates_before_writing_witness:
  "SCREENPIPE_CLOUD \<noteq> EMBEDDED
   \<and> Regular_submitChanges example_typeErrorText
        (\<lambda>p. Some (\<lambda>vals. Some (Thrown (JsError (Some ''invalid api key'')))))
        (\<lambda>vals s. (None, s ++ vals))
        SCREENPIPE_CLOUD [''openaiApiKey'' \<mapsto> JStr ''sk-000'']
        \<lparr>store = Map.empty, events = []\<rparr> =
       (Inl (Thrown (JsError (Some ''invalid api key''))),
        \<lparr>store = Map.empty,
         events =
           [CredentialValidation SCREENPIPE_CLOUD [''openaiApiKey'' \<mapsto> JStr ''sk-000''],
            Toast \<lparr>title = ''credential validation failed!'',
                   description = Some ''invalid api key'',
                   variant = Some ''destructive''\<rparr>]\<rparr>)
   \<and> snd (Regular_submitChanges example_typeErrorText (\<lambda>p. Some (\<lambda>vals. None))
        (\<lambda>vals s. (None, s ++ vals))
        SCREENPIPE_CLOUD [''openaiApiKey'' \<mapsto> JStr ''sk-000'']
        \<lparr>store = Map.empty, events = []\<rparr>) =
        \<lparr>store = [''openaiApiKey'' \<mapsto> JStr ''sk-000'',
                  ''aiProviderType'' \<mapsto> JProvider SCREENPIPE_CLOUD],
         events =
           [CredentialValidation SCREENPIPE_CLOUD [''openaiApiKey'' \<mapsto> JStr ''sk-000''],
            Toast \<lparr>title = ''credential validation successful'', description = None,
                   variant = None\<rparr>,
            UpdateSettings [''openaiApiKey'' \<mapsto> JStr ''sk-000'',
                            ''aiProviderType'' \<mapsto> JProvider SCREENPIPE_CLOUD],
            Toast \<lparr>title = ''ai provider info updated'', description = None,
                   variant = None\<rparr>]\<rparr>"
proof -
  have p: "SCREENPIPE_CLOUD \<noteq> EMBEDDED" by simp
  have u: "snd (Regular_updateSettingsAsync example_typeErrorText (\<lambda>vals s. (None, s ++ vals))
              [''openaiApiKey'' \<mapsto> JStr ''sk-000'',
               ''aiProviderType'' \<mapsto> JProvider SCREENPIPE_CLOUD] w) =
           \<lparr>store = store w ++ [''openaiApiKey'' \<mapsto> JStr ''sk-000'',
                                ''aiProviderType'' \<mapsto> JProvider SCREENPIPE_CLOUD],
            events = events w @
              [UpdateSettings [''openaiApiKey'' \<mapsto> JStr ''sk-000'',
                               ''aiProviderType'' \<mapsto> JProvider SCREENPIPE_CLOUD],
               Toast \<lparr>title = ''ai provider info updated'', description = None,
                      variant = None\<rparr>]\<rparr>" for w :: "partial_settings world"
    by (simp add: Regular_updateSettingsAsync_def mutateAsync_def call_updateSettings_def
        toast_def)
  show ?thesis
    using p
      submitChanges_validates_before_writing [OF p,
        where AiProviders = "\<lambda>p. Some (\<lambda>vals. Some (Thrown (JsError (Some ''invalid api key''))))"
          and validate = "\<lambda>vals. Some (Thrown (JsError (Some ''invalid api key'')))"
          and e = "Thrown (JsError (Some ''invalid api key''))"
          and vals = "[''openaiApiKey'' \<mapsto> JStr ''sk-000'']"
          and updateSettings = "\<lambda>vals s. (None, s ++ vals)"
          and typeErrorText = example_typeErrorText
          and w = "\<lparr>store = Map.empty, events = []\<rparr>"]
      submitChanges_validates_before_writing [OF p,
        where AiProviders = "\<lambda>p. Some (\<lambda>vals. None)"
          and validate = "\<lambda>vals. None"
          and vals = "[''openaiApiKey'' \<mapsto> JStr ''sk-000'']"
          and updateSettings = "\<lambda>vals s. (None, s ++ vals)"
          and typeErrorText = example_typeErrorText
          and w = "\<lparr>store = Map.empty, events = []\<rparr>"]
    by (simp add: new_Error_def message_or_retry_def Regular_submitChanges_def
        Regular_credentialValidation_def mutateAsync_def toast_def onError_toast_def
        rethrown_Error_def u)
qed

lemma Sidecar_updateSettingsAsync_ok:
  "updateSettings vals (store w) = (None, s') \<Longrightarrow>
   Sidecar_updateSettingsAsync typeErrorText updateSettings vals w =
     (Inr (), \<lparr>store = s', events = events w @
        [UpdateSettings vals,
         Toast \<lparr>title = ''sidecar default port updated'', description = None,
                variant = None\<rparr>]\<rparr>)"
  by (simp add: Sidecar_updateSettingsAsync_def mutateAsync_def call_updateSettings_eq toast_def)

lemma Sidecar_updateSettingsAsync_throws:
  "updateSettings vals (store w) = (Some (Thrown err), s') \<Longrightarrow>
   Sidecar_updateSettingsAsync typeErrorText updateSettings vals w =
     (Inl (Thrown err), \<lparr>store = s', events = events w @
        [UpdateSettings vals,
         Toast \<lparr>title = ''form submission failed!'',
                description = Some (message_or_retry err),
                variant = Some ''destructive''\<rparr>]\<rparr>)"
  by (simp add: Sidecar_updateSettingsAsync_def mutateAsync_def call_updateSettings_eq toast_def
      onError_toast_def)

lemma Sidecar_updateSettingsAsync_throws_nullish:
  "updateSettings vals (store w) = (Some (ThrownNullish n), s') \<Longrightarrow>
   Sidecar_updateSettingsAsync typeErrorText updateSettings vals w =
     (Inl (Thrown (TypeError_reading_message typeErrorText n)),
      \<lparr>store = s', events = events w @ [UpdateSettings vals]\<rparr>)"
  by (simp add: Sidecar_updateSettingsAsync_def mutateAsync_def call_updateSettings_eq
      onError_toast_def)

lemma Embedded_updateSettingsAsync_ok:
  "updateSettings vals (store w) = (None, s') \<Longrightarrow>
   Embedded_updateSettingsAsync typeErrorText updateSettings vals w =
     (Inr (), \<lparr>store = s', events = events w @
        [UpdateSettings vals,
         Toast \<lparr>title = ''ai provider info updated'', description = None,
                variant = None\<rparr>]\<rparr>)"
  by (simp add: Embedded_updateSettingsAsync_def mutateAsync_def call_updateSettings_eq toast_def)

lemma Embedded_updateSettingsAsync_throws:
  "updateSettings vals (store w) = (Some (Thrown err), s') \<Longrightarrow>
   Embedded_updateSettingsAsync typeErrorText updateSettings vals w =
     (Inl (Thrown err), \<lparr>store = s', events = events w @
        [UpdateSettings vals,
         Toast \<lparr>title = ''ai provider update failed!'',
                description = Some (message_or_retry err),
                variant = Some ''destructive''\<rparr>]\<rparr>)"
  by (simp add: Embedded_updateSettingsAsync_def mutateAsync_def call_updateSettings_eq toast_def
      onError_toast_def)

lemma Embedded_updateSettingsAsync_throws_nullish:
  "updateSettings vals (store w) = (Some (ThrownNullish n), s') \<Longrightarrow>
   Embedded_updateSettingsAsync typeErrorText updateSettings vals w =
     (Inl (Thrown (TypeError_reading_message typeErrorText n)),
      \<lparr>store = s', events = events w @ [UpdateSettings vals]\<rparr>)"
  by (simp add: Embedded_updateSettingsAsync_def mutateAsync_def call_updateSettings_eq
      onError_toast_def)



lemma Sidecar_updateSettingsAsync_events:
  "events (snd (Sidecar_updateSettingsAsync typeErrorText updateSettings vals w)) =
     events w @ UpdateSettings vals #
       (case fst (updateSettings vals (store w)) of
          None \<Rightarrow>
            [Toast \<lparr>title = ''sidecar default port updated'', description = None,
                    variant = None\<rparr>]
        | Some (ThrownNullish n) \<Rightarrow> []
        | Some (Thrown err) \<Rightarrow>
            [Toast \<lparr>title = ''form submission failed!'',
                    description = Some (message_or_retry err),
                    variant = Some ''destructive''\<rparr>])"
proof (cases "updateSettings vals (store w)")
  case (Pair r s')
  show ?thesis
  proof (cases r)
    case None
    with Pair show ?thesis by (simp add: Sidecar_updateSettingsAsync_ok)
  next
    case (Some e)
    with Pair show ?thesis
      by (cases e)
        (simp_all add: Sidecar_updateSettingsAsync_throws
          Sidecar_updateSettingsAsync_throws_nullish)
  qed
qed

lemma Embedded_updateSettingsAsync_events:
  "events (snd (Embedded_updateSettingsAsync typeErrorText updateSettings vals w)) =
     events w @ UpdateSettings vals #
       (case fst (updateSettings vals (store w)) of
          None \<Rightarrow>
            [Toast \<lparr>title = ''ai provider info updated'', description = None,
                    variant = None\<rparr>]
        | Some (ThrownNullish n) \<Rightarrow> []
        | Some (Thrown err) \<Rightarrow>
            [Toast \<lparr>title = ''ai provider update failed!'',
                    description = Some (message_or_retry err),
                    variant = Some ''destructive''\<rparr>])"
proof (cases "updateSettings vals (store w)")
  case (Pair r s')
  show ?thesis
  proof (cases r)
    case None
    with Pair show ?thesis by (simp add: Embedded_updateSettingsAsync_ok)
  next
    case (Some e)
    with Pair show ?thesis
      by (cases e)
        (simp_all add: Embedded_updateSettingsAsync_throws
          Embedded_updateSettingsAsync_throws_nullish)
  qed
qed

lemma Sidecar_updateSettingsAsync_writes:
  "settings_writes
     (events (snd (Sidecar_updateSettingsAsync typeErrorText updateSettings vals w))) =
     settings_writes (events w) @ [vals]"
  by (simp add: Sidecar_updateSettingsAsync_events settings_writes_append
      split: option.splits js_thrown.splits)

lemma Embedded_updateSettingsAsync_writes:
  "settings_writes
     (events (snd (Embedded_updateSettingsAsync typeErrorText updateSettings vals w))) =
     settings_writes (events w) @ [vals]"
  by (simp add: Embedded_updateSettingsAsync_events settings_writes_append
      split: option.splits js_thrown.splits)

lemma handleFormSubmit_writes:
  "settings_writes
     (events (snd (handleFormSubmit typeErrorText parseInt updateSettings stg portText w))) =
   settings_writes (events (snd (Sidecar_updateSettingsAsync typeErrorText updateSettings
     [''embeddedLLM'' \<mapsto> JObj [''port'' \<mapsto> JNum (parseInt portText 10),
                                ''model'' \<mapsto> JStr (model (embeddedLLM stg)),
                                ''enabled'' \<mapsto> JBool True]] w)))"
  by (simp add: handleFormSubmit_def settings_writes_append split: prod.splits sum.splits)

text \<open>
  C9. Every submission of the sidecar port form (\<^verbatim>\<open>handleFormSubmit\<close> of the sidecar
  controller, \<^verbatim>\<open>submitChanges\<close> of the embedded setup form) calls \<^verbatim>\<open>updateSettings\<close>
  exactly once. The object it hands over has the single key \<^verbatim>\<open>embeddedLLM\<close>, whose
  value has \<^verbatim>\<open>port\<close> the base-10 \<^verbatim>\<open>parseInt\<close> of the entered text, \<^verbatim>\<open>model\<close> the model
  already in the settings, and \<^verbatim>\<open>enabled\<close> true; no other settings key is written.
\<close>

theorem port_form_submission_writes_embeddedLLM_only:
  "settings_writes
     (events (snd (handleFormSubmit typeErrorText parseInt updateSettings stg portText w))) =
     settings_writes (events w) @
       [[''embeddedLLM'' \<mapsto> JObj [''port'' \<mapsto> JNum (parseInt portText 10),
                                   ''model'' \<mapsto> JStr (model (embeddedLLM stg)),
                                   ''enabled'' \<mapsto> JBool True]]]
   \<and> settings_writes
        (events (snd (Embedded_submitChanges typeErrorText parseInt updateSettings stg
                       portText w))) =
     settings_writes (events w) @
       [[''embeddedLLM'' \<mapsto> JObj [''port'' \<mapsto> JNum (parseInt portText 10),
                                   ''model'' \<mapsto> JStr (model (embeddedLLM stg)),
                                   ''enabled'' \<mapsto> JBool True]]]
   \<and> dom [''embeddedLLM'' \<mapsto> JObj [''port'' \<mapsto> JNum (parseInt portText 10),
                                     ''model'' \<mapsto> JStr (model (embeddedLLM stg)),
                                     ''enabled'' \<mapsto> JBool True]] = {''embeddedLLM''}
   \<and> dom [''port'' \<mapsto> JNum (parseInt portText 10),
            ''model'' \<mapsto> JStr (model (embeddedLLM stg)),
            ''enabled'' \<mapsto> JBool True] = {''port'', ''model'', ''enabled''}"
proof (intro conjI)
  show "settings_writes
     (events (snd (handleFormSubmit typeErrorText parseInt updateSettings stg portText w))) =
     settings_writes (events w) @
       [[''embeddedLLM'' \<mapsto> JObj [''port'' \<mapsto> JNum (parseInt portText 10),
                                   ''model'' \<mapsto> JStr (model (embeddedLLM stg)),
                                   ''enabled'' \<mapsto> JBool True]]]"
    by (simp only: handleFormSubmit_writes Sidecar_updateSettingsAsync_writes)
  show "settings_writes
        (events (snd (Embedded_submitChanges typeErrorText parseInt updateSettings stg
                       portText w))) =
     settings_writes (events w) @
       [[''embeddedLLM'' \<mapsto> JObj [''port'' \<mapsto> JNum (parseInt portText 10),
                                   ''model'' \<mapsto> JStr (model (embeddedLLM stg)),
                                   ''enabled'' \<mapsto> JBool True]]]"
    by (simp only: Embedded_submitChanges_def Embedded_updateSettingsAsync_writes)
  show "dom [''embeddedLLM'' \<mapsto> JObj [''port'' \<mapsto> JNum (parseInt portText 10),
                                     ''model'' \<mapsto> JStr (model (embeddedLLM stg)),
                                     ''enabled'' \<mapsto> JBool True]] = {''embeddedLLM''}"
    by simp
  show "dom [''port'' \<mapsto> JNum (parseInt portText 10),
            ''model'' \<mapsto> JStr (model (embeddedLLM stg)),
            ''enabled'' \<mapsto> JBool True] = {''port'', ''model'', ''enabled''}"
    by auto
qed

text \<open>
  C5 as stated fails: the claim has the form shown in every case other than
  SCREENPIPE_CLOUD without a user. With another provider and a logged-in user, the form
  is still not rendered while the setup-form query has delivered nothing.
\<close>

theorem form_waits_for_setup_data:
  "\<not> (OtherProvider ''CUSTOM'' = SCREENPIPE_CLOUD \<and> (Some ''alice'' :: string option) = None)
   \<and> \<not> form_rendered
        (RegularProviderSetupForm_render (OtherProvider ''CUSTOM'') (Some ''alice'')
           (None :: (unit, unit) setup_query_data option))"
  by (simp add: RegularProviderSetupForm_render_def componentsVisibility_def)

text \<open>
  C5, amended. For every selected provider and user session, the login step is rendered
  exactly when the provider is SCREENPIPE_CLOUD and there is no user, and then the form
  is hidden; in every other case no login step appears, \<^verbatim>\<open>showForm\<close> is true, and the
  form is rendered exactly when the setup-form query has delivered a setup form. The
  login button hands the login URL to the shell plugin's \<^verbatim>\<open>open\<close> and does nothing else.
\<close>

theorem login_step_and_form_visibility:
  "loginStep_rendered (RegularProviderSetupForm_render aiProvider user data)
     = (aiProvider = SCREENPIPE_CLOUD \<and> user = None)
   \<and> showForm (componentsVisibility aiProvider user)
     = (\<not> (aiProvider = SCREENPIPE_CLOUD \<and> user = None))
   \<and> form_rendered (RegularProviderSetupForm_render aiProvider user data)
     = (\<not> (aiProvider = SCREENPIPE_CLOUD \<and> user = None)
        \<and> (\<exists>d f. data = Some d \<and> setupForm d = Some f))
   \<and> loginButton_onClick w = w\<lparr>events := events w @ [OpenUrl ''https://screenpi.pe/login'']\<rparr>"
  by (auto simp add: RegularProviderSetupForm_render_def componentsVisibility_def
      loginButton_onClick_def Let_def split: option.splits)


section \<open>Properties of the command line's error module and of the form schema\<close>

lemma handleError_shape:
  "\<exists>logged. handleError highlighter_info err =
     map LoggerError logged @ [LoggerBreak, ProcessExit 1]"
proof (cases err)
  case (ThrownString s)
  have "handleError highlighter_info err =
     map LoggerError
       [''Something went wrong. Please check the error below for more details.'',
        ''If the problem persists, please open an issue on GitHub.'', [], s]
     @ [LoggerBreak, ProcessExit 1]"
    by (simp add: handleError_def ThrownString)
  then show ?thesis by blast
next
  case (ThrownZodError fieldErrors)
  have "handleError highlighter_info err =
     map LoggerError
       ([''Something went wrong. Please check the error below for more details.'',
         ''If the problem persists, please open an issue on GitHub.'', [],
         ''Validation failed:''] @
        map (\<lambda>(k, v). ''- '' @ highlighter_info k @ '': '' @ join_comma v) fieldErrors)
     @ [LoggerBreak, ProcessExit 1]"
    by (simp add: handleError_def ThrownZodError case_prod_unfold)
  then show ?thesis by blast
next
  case (ThrownError m)
  have "handleError highlighter_info err =
     map LoggerError
       [''Something went wrong. Please check the error below for more details.'',
        ''If the problem persists, please open an issue on GitHub.'', [], m]
     @ [LoggerBreak, ProcessExit 1]"
    by (simp add: handleError_def ThrownError)
  then show ?thesis by blast
next
  case ThrownOther
  have "handleError highlighter_info err =
     map LoggerError
       [''Something went wrong. Please check the error below for more details.'',
        ''If the problem persists, please open an issue on GitHub.'', []]
     @ [LoggerBreak, ProcessExit 1]"
    by (simp add: handleError_def ThrownOther)
  then show ?thesis by blast
qed

lemma Regular_updateSettingsAsync_events_exact:
  "events (snd (Regular_updateSettingsAsync typeErrorText updateSettings vals w)) =
     events w @
       [UpdateSettings vals,
        Toast (case fst (updateSettings vals (store w)) of
                 None \<Rightarrow>
                   \<lparr>title = ''ai provider info updated'', description = None, variant = None\<rparr>
               | Some e \<Rightarrow>
                   \<lparr>title = ''ai provider update failed!'',
                    description = Some (message_or_retry (rethrown_Error typeErrorText e)),
                    variant = Some ''destructive''\<rparr>)]"
proof (cases "updateSettings vals (store w)")
  case (Pair r s')
  then show ?thesis
    by (cases r) (simp_all add: Regular_updateSettingsAsync_ok Regular_updateSettingsAsync_throws)
qed

lemma Regular_credentialValidation_events_exact:
  "events (snd (Regular_credentialValidation typeErrorText AiProviders aiProvider vals w)) =
     events w @
       (case AiProviders aiProvider of
          None \<Rightarrow>
            [Toast \<lparr>title = ''credential validation successful'', description = None,
                    variant = None\<rparr>]
        | Some validate \<Rightarrow>
            [CredentialValidation aiProvider vals,
             Toast (case validate vals of
                      None \<Rightarrow>
                        \<lparr>title = ''credential validation successful'', description = None,
                         variant = None\<rparr>
                    | Some e \<Rightarrow>
                        \<lparr>title = ''credential validation failed!'',
                         description = Some (message_or_retry (rethrown_Error typeErrorText e)),
                         variant = Some ''destructive''\<rparr>)])"
proof (cases "AiProviders aiProvider")
  case None
  then show ?thesis by (simp add: Regular_credentialValidation_absent)
next
  case (Some validate)
  then show ?thesis
    by (cases "validate vals")
      (simp_all add: Regular_credentialValidation_ok Regular_credentialValidation_throws)
qed

text \<open>
  C4 as stated fails: the claim has no source file map named error conditions to
  distinct codes, and no error path do more than show a notification. The command
  line's module has the table \<^verbatim>\<open>ERRORS\<close>, six names with six distinct codes, and
  \<^verbatim>\<open>handleError\<close>, which logs and ends the process with status 1.
\<close>

theorem error_table_and_process_exit:
  "map_of ERRORS ''MISSING_DIR_OR_EMPTY_PIPE'' = Some ''1''
   \<and> map_of ERRORS ''BUILD_MISSING_REGISTRY_FILE'' = Some ''6''
   \<and> length ERRORS = 6
   \<and> distinct (map fst ERRORS)
   \<and> distinct (map snd ERRORS)
   \<and> handleError (\<lambda>k. k) (ThrownError ''config not found'') =
       [LoggerError ''Something went wrong. Please check the error below for more details.'',
        LoggerError ''If the problem persists, please open an issue on GitHub.'',
        LoggerError [],
        LoggerError ''config not found'',
        LoggerBreak,
        ProcessExit 1]"
  by (simp add: ERRORS_def handleError_def)

text \<open>
  C4, amended. The only error taxonomy in the given files is the command line's table
  \<^verbatim>\<open>ERRORS\<close>, which maps six named conditions to the distinct codes 1 to 6. Its
  \<^verbatim>\<open>handleError\<close> logs three fixed lines, then the error: the string itself for a
  string, \<^verbatim>\<open>Validation failed:\<close> and one line for each field (its highlighted name and
  its messages, joined by commas) for a \<^verbatim>\<open>ZodError\<close>, the message for another
  \<^verbatim>\<open>Error\<close>, and nothing for any other value; on every path it then logs a break and
  ends the process with status 1. The settings components have no retry and no recovery:
  each mutation calls its collaborator at most once, and besides that call it shows
  notifications only, at most one.
\<close>

theorem error_handling_inventory:
  "ERRORS =
     [(''MISSING_DIR_OR_EMPTY_PIPE'', ''1''), (''EXISTING_CONFIG'', ''2''),
      (''MISSING_CONFIG'', ''3''), (''FAILED_CONFIG_READ'', ''4''),
      (''COMPONENT_NOT_FOUND'', ''5''), (''BUILD_MISSING_REGISTRY_FILE'', ''6'')]
   \<and> distinct (map fst ERRORS)
   \<and> distinct (map snd ERRORS)
   \<and> handleError highlighter_info (ThrownString s) =
       [LoggerError ''Something went wrong. Please check the error below for more details.'',
        LoggerError ''If the problem persists, please open an issue on GitHub.'',
        LoggerError [],
        LoggerError s, LoggerBreak, ProcessExit 1]
   \<and> handleError highlighter_info (ThrownZodError fieldErrors) =
       [LoggerError ''Something went wrong. Please check the error below for more details.'',
        LoggerError ''If the problem persists, please open an issue on GitHub.'',
        LoggerError [],
        LoggerError ''Validation failed:''] @
       map (\<lambda>(k, v). LoggerError (''- '' @ highlighter_info k @ '': '' @ join_comma v))
         fieldErrors @
       [LoggerBreak, ProcessExit 1]
   \<and> handleError highlighter_info (ThrownError m) =
       [LoggerError ''Something went wrong. Please check the error below for more details.'',
        LoggerError ''If the problem persists, please open an issue on GitHub.'',
        LoggerError [],
        LoggerError m, LoggerBreak, ProcessExit 1]
   \<and> handleError highlighter_info ThrownOther =
       [LoggerError ''Something went wrong. Please check the error below for more details.'',
        LoggerError ''If the problem persists, please open an issue on GitHub.'',
        LoggerError [],
        LoggerBreak, ProcessExit 1]
   \<and> (\<exists>logged. handleError highlighter_info err =
         map LoggerError logged @ [LoggerBreak, ProcessExit 1])
   \<and> events (snd (Regular_updateSettingsAsync typeErrorText updateSettings vals w)) =
       events w @
         [UpdateSettings vals,
          Toast (case fst (updateSettings vals (store w)) of
                   None \<Rightarrow>
                     \<lparr>title = ''ai provider info updated'', description = None,
                      variant = None\<rparr>
                 | Some e \<Rightarrow>
                     \<lparr>title = ''ai provider update failed!'',
                      description = Some (message_or_retry (rethrown_Error typeErrorText e)),
                      variant = Some ''destructive''\<rparr>)]
   \<and> events (snd (Regular_credentialValidation typeErrorText AiProviders aiProvider vals w)) =
       events w @
         (case AiProviders aiProvider of
            None \<Rightarrow>
              [Toast \<lparr>title = ''credential validation successful'', description = None,
                      variant = None\<rparr>]
          | Some validate \<Rightarrow>
              [CredentialValidation aiProvider vals,
               Toast (case validate vals of
                        None \<Rightarrow>
                          \<lparr>title = ''credential validation successful'', description = None,
                           variant = None\<rparr>
                      | Some e \<Rightarrow>
                          \<lparr>title = ''credential validation failed!'',
                           description =
                             Some (message_or_retry (rethrown_Error typeErrorText e)),
                           variant = Some ''destructive''\<rparr>)])
   \<and> events (snd (Sidecar_updateSettingsAsync typeErrorText updateSettings vals w)) =
       events w @ UpdateSettings vals #
         (case fst (updateSettings vals (store w)) of
            None \<Rightarrow>
              [Toast \<lparr>title = ''sidecar default port updated'', description = None,
                      variant = None\<rparr>]
          | Some (ThrownNullish n) \<Rightarrow> []
          | Some (Thrown e) \<Rightarrow>
              [Toast \<lparr>title = ''form submission failed!'',
                      description = Some (message_or_retry e),
                      variant = Some ''destructive''\<rparr>])
   \<and> events (snd (Embedded_updateSettingsAsync typeErrorText updateSettings vals w)) =
       events w @ UpdateSettings vals #
         (case fst (updateSettings vals (store w)) of
            None \<Rightarrow>
              [Toast \<lparr>title = ''ai provider info updated'', description = None,
                      variant = None\<rparr>]
          | Some (ThrownNullish n) \<Rightarrow> []
          | Some (Thrown e) \<Rightarrow>
              [Toast \<lparr>title = ''ai provider update failed!'',
                      description = Some (message_or_retry e),
                      variant = Some ''destructive''\<rparr>])"
proof (intro conjI)
  show "ERRORS =
     [(''MISSING_DIR_OR_EMPTY_PIPE'', ''1''), (''EXISTING_CONFIG'', ''2''),
      (''MISSING_CONFIG'', ''3''), (''FAILED_CONFIG_READ'', ''4''),
      (''COMPONENT_NOT_FOUND'', ''5''), (''BUILD_MISSING_REGISTRY_FILE'', ''6'')]"
    by (simp add: ERRORS_def)
  show "distinct (map fst ERRORS)" by (simp add: ERRORS_def)
  show "distinct (map snd ERRORS)" by (simp add: ERRORS_def)
  show "handleError highlighter_info (ThrownString s) =
       [LoggerError ''Something went wrong. Please check the error below for more details.'',
        LoggerError ''If the problem persists, please open an issue on GitHub.'',
        LoggerError [],
        LoggerError s, LoggerBreak, ProcessExit 1]"
    by (simp add: handleError_def)
  show "handleError highlighter_info (ThrownZodError fieldErrors) =
       [LoggerError ''Something went wrong. Please check the error below for more details.'',
        LoggerError ''If the problem persists, please open an issue on GitHub.'',
        LoggerError [],
        LoggerError ''Validation failed:''] @
       map (\<lambda>(k, v). LoggerError (''- '' @ highlighter_info k @ '': '' @ join_comma v))
         fieldErrors @
       [LoggerBreak, ProcessExit 1]"
    by (simp add: handleError_def)
  show "handleError highlighter_info (ThrownError m) =
       [LoggerError ''Something went wrong. Please check the error below for more details.'',
        LoggerError ''If the problem persists, please open an issue on GitHub.'',
        LoggerError [],
        LoggerError m, LoggerBreak, ProcessExit 1]"
    by (simp add: handleError_def)
  show "handleError highlighter_info ThrownOther =
       [LoggerError ''Something went wrong. Please check the error below for more details.'',
        LoggerError ''If the problem persists, please open an issue on GitHub.'',
        LoggerError [],
        LoggerBreak, ProcessExit 1]"
    by (simp add: handleError_def)
  show "\<exists>logged. handleError highlighter_info err =
         map LoggerError logged @ [LoggerBreak, ProcessExit 1]"
    by (rule handleError_shape)
  show "events (snd (Regular_updateSettingsAsync typeErrorText updateSettings vals w)) =
       events w @
         [UpdateSettings vals,
          Toast (case fst (updateSettings vals (store w)) of
                   None \<Rightarrow>
                     \<lparr>title = ''ai provider info updated'', description = None,
                      variant = None\<rparr>
                 | Some e \<Rightarrow>
                     \<lparr>title = ''ai provider update failed!'',
                      description = Some (message_or_retry (rethrown_Error typeErrorText e)),
                      variant = Some ''destructive''\<rparr>)]"
    by (rule Regular_updateSettingsAsync_events_exact)
  show "events (snd (Regular_credentialValidation typeErrorText AiProviders aiProvider vals w)) =
       events w @
         (case AiProviders aiProvider of
            None \<Rightarrow>
              [Toast \<lparr>title = ''credential validation successful'', description = None,
                      variant = None\<rparr>]
          | Some validate \<Rightarrow>
              [CredentialValidation aiProvider vals,
               Toast (case validate vals of
                        None \<Rightarrow>
                          \<lparr>title = ''credential validation successful'', description = None,
                           variant = None\<rparr>
                      | Some e \<Rightarrow>
                          \<lparr>title = ''credential validation failed!'',
                           description =
                             Some (message_or_retry (rethrown_Error typeErrorText e)),
                           variant = Some ''destructive''\<rparr>)])"
    by (rule Regular_credentialValidation_events_exact)
  show "events (snd (Sidecar_updateSettingsAsync typeErrorText updateSettings vals w)) =
       events w @ UpdateSettings vals #
         (case fst (updateSettings vals (store w)) of
            None \<Rightarrow>
              [Toast \<lparr>title = ''sidecar default port updated'', description = None,
                      variant = None\<rparr>]
          | Some (ThrownNullish n) \<Rightarrow> []
          | Some (Thrown e) \<Rightarrow>
              [Toast \<lparr>title = ''form submission failed!'',
                      description = Some (message_or_retry e),
                      variant = Some ''destructive''\<rparr>])"
    by (rule Sidecar_updateSettingsAsync_events)
  show "events (snd (Embedded_updateSettingsAsync typeErrorText updateSettings vals w)) =
       events w @ UpdateSettings vals #
         (case fst (updateSettings vals (store w)) of
            None \<Rightarrow>
              [Toast \<lparr>title = ''ai provider info updated'', description = None,
                      variant = None\<rparr>]
          | Some (ThrownNullish n) \<Rightarrow> []
          | Some (Thrown e) \<Rightarrow>
              [Toast \<lparr>title = ''ai provider update failed!'',
                      description = Some (message_or_retry e),
                      variant = Some ''destructive''\<rparr>])"
    by (rule Embedded_updateSettingsAsync_events)
qed

lemma aiUrl_validator:
  "field_validator (formFields CustomSetupForm ! 0) (Some s) = (1 \<le> length s \<and> length s \<le> 50)"
  by (auto simp add: CustomSetupForm_def fields_def field_validator_def)

text \<open>
  C6. Every field of the custom provider's setup form is declared with
  \<^verbatim>\<open>optional: false\<close>, and the validator generated from the endpoint-url descriptor
  (key \<^verbatim>\<open>aiUrl\<close>, minimum 1, maximum 50) rejects the empty string and every string
  longer than 50 code units; so does the form's validator on such an entry.
\<close>

theorem custom_form_fields_required_and_url_bounded:
  "map (\<lambda>f. optional (validationMeta f)) (formFields CustomSetupForm)
     = [False, False, False, False]
   \<and> key (formFields CustomSetupForm ! 0) = ''aiUrl''
   \<and> title' (formFields CustomSetupForm ! 0) = ''endpoint url''
   \<and> \<not> field_validator (formFields CustomSetupForm ! 0) (Some [])
   \<and> (50 < length s \<longrightarrow> \<not> field_validator (formFields CustomSetupForm ! 0) (Some s))
   \<and> (entered ''aiUrl'' = Some s \<and> (s = [] \<or> 50 < length s)
        \<longrightarrow> \<not> generateFormSchema (formFields CustomSetupForm) entered)"
proof (intro conjI impI)
  show "map (\<lambda>f. optional (validationMeta f)) (formFields CustomSetupForm)
     = [False, False, False, False]"
    by (simp add: CustomSetupForm_def fields_def)
  show "key (formFields CustomSetupForm ! 0) = ''aiUrl''"
    by (simp add: CustomSetupForm_def fields_def)
  show "title' (formFields CustomSetupForm ! 0) = ''endpoint url''"
    by (simp add: CustomSetupForm_def fields_def)
  show "\<not> field_validator (formFields CustomSetupForm ! 0) (Some [])"
    by (simp add: aiUrl_validator)
  show "\<not> field_validator (formFields CustomSetupForm ! 0) (Some s)" if "50 < length s"
    using that by (simp add: aiUrl_validator)
  show "\<not> generateFormSchema (formFields CustomSetupForm) entered"
    if h: "entered ''aiUrl'' = Some s \<and> (s = [] \<or> 50 < length s)"
  proof -
    have "\<not> field_validator (formFields CustomSetupForm ! 0) (Some s)"
      using h by (auto simp add: aiUrl_validator)
    moreover have "formFields CustomSetupForm ! 0 \<in> set (formFields CustomSetupForm)"
      by (simp add: CustomSetupForm_def fields_def)
    moreover have "entered (key (formFields CustomSetupForm ! 0)) = Some s"
      using h by (simp add: CustomSetupForm_def fields_def)
    ultimately show ?thesis
      unfolding generateFormSchema_def list_all_iff by metis
  qed
qed

text \<open>
  An entry of 51 code units, and the empty entry.
\<close>

theorem custom_form_fields_required_and_url_bounded_witness:
  "50 < length (replicate 51 (0x61 :: 16 word))
   \<and> \<not> field_validator (formFields CustomSetupForm ! 0) (Some (replicate 51 0x61))
   \<and> [''aiUrl'' \<mapsto> replicate 51 (0x61 :: 16 word)] ''aiUrl'' = Some (replicate 51 0x61)
   \<and> \<not> generateFormSchema (formFields CustomSetupForm) [''aiUrl'' \<mapsto> replicate 51 0x61]
   \<and> \<not> generateFormSchema (formFields CustomSetupForm) [''aiUrl'' \<mapsto> []]"
  using custom_form_fields_required_and_url_bounded
      [of "replicate 51 0x61" "[''aiUrl'' \<mapsto> replicate 51 0x61]"]
    custom_form_fields_required_and_url_bounded [of "[]" "[''aiUrl'' \<mapsto> []]"]
  by simp

end
